theory Spec2Isabelle
  imports Main "HOL-Library.Word"
begin

section \<open>JavaScript strings\<close>

text \<open>
  A JavaScript (and a Java) string is a sequence of UTF-16 code units; \<open>length\<close>,
  \<open>substring\<close>, \<open>trim\<close> and the regular expressions of the sources all work on code
  units. A code unit is a 16-bit word, a string is a list of them. String literals of
  the sources are written with \<open>lit\<close>.
\<close>

type_synonym jschar = "16 word"
type_synonym jsstring = "jschar list"

definition lit :: "string \<Rightarrow> jsstring" where
  "lit s = map of_char s"

text \<open>
  \<open>String.prototype.substring(start, end)\<close>: both indices are clamped to
  \<open>[0, length]\<close> and swapped when \<open>start > end\<close>.
\<close>

definition substring :: "'a list \<Rightarrow> int \<Rightarrow> int \<Rightarrow> 'a list" where
  "substring s a b =
     (let n = int (length s);
          a' = min (max a 0) n;
          b' = min (max b 0) n;
          lo = min a' b';
          hi = max a' b'
      in take (nat (hi - lo)) (drop (nat lo) s))"

section \<open>SMSService.splitLongMessage\<close>

text \<open>
  \<^verbatim>\<open>
  splitLongMessage(message: string, maxLength: number = 160): string[] {
    if (message.length <= maxLength) { return [message]; }
    const parts: string[] = [];
    for (let i = 0; i < message.length; i += maxLength) {
      parts.push(message.substring(i, i + maxLength));
    }
    return parts;
  }
  \<close>
  The loop does not terminate when \<open>maxLength \<le> 0\<close> and the message is not empty
  (\<open>i\<close> never reaches the length), so it is a partial function: \<open>None\<close> is "does not
  return". \<open>maxLength\<close> is taken to be an integer.
\<close>

partial_function (option) split_loop ::
  "'a list \<Rightarrow> int \<Rightarrow> int \<Rightarrow> 'a list list \<Rightarrow> 'a list list option" where
  "split_loop message maxLength i parts =
     (if i < int (length message)
      then split_loop message maxLength (i + maxLength)
             (parts @ [substring message i (i + maxLength)])
      else Some parts)"

declare split_loop.simps [code]

definition splitLongMessage :: "'a list \<Rightarrow> int \<Rightarrow> 'a list list option" where
  "splitLongMessage message maxLength =
     (if int (length message) \<le> maxLength then Some [message]
      else split_loop message maxLength 0 [])"

definition DEFAULT_MAX_LENGTH :: int where
  "DEFAULT_MAX_LENGTH = 160"

definition splitLongMessage_default :: "'a list \<Rightarrow> 'a list list option" where
  "splitLongMessage_default message = splitLongMessage message DEFAULT_MAX_LENGTH"


section \<open>SMSService: validation and the single send\<close>

text \<open>Character classes: \<open>\d\<close> of a JavaScript regular expression is the ASCII digits;
  \<open>trim\<close> removes the code units of WhiteSpace and LineTerminator at both ends.\<close>

definition isDigit :: "jschar \<Rightarrow> bool" where
  "isDigit c = (0x30 \<le> c \<and> c \<le> 0x39)"

definition isWhiteSpace :: "jschar \<Rightarrow> bool" where
  "isWhiteSpace c =
     (c \<in> {0x09, 0x0A, 0x0B, 0x0C, 0x0D, 0x20, 0xA0, 0x1680, 0x2028, 0x2029,
            0x202F, 0x205F, 0x3000, 0xFEFF}
      \<or> (0x2000 \<le> c \<and> c \<le> 0x200A))"

definition trim :: "jsstring \<Rightarrow> jsstring" where
  "trim s = rev (dropWhile isWhiteSpace (rev (dropWhile isWhiteSpace s)))"

definition startsWith :: "'a list \<Rightarrow> 'a list \<Rightarrow> bool" where
  "startsWith s p = (take (length p) s = p)"

text \<open>The decimal rendering of a non-negative integer inside a template literal.\<close>

fun decimal :: "nat \<Rightarrow> jsstring" where
  "decimal n =
     (if n < 10 then [0x30 + of_nat n]
      else decimal (n div 10) @ [0x30 + of_nat (n mod 10)])"

declare decimal.simps [simp del]

text \<open>
  \<^verbatim>\<open>
  private cleanPhoneNumber(phoneNumber: string): string {
    let cleaned = phoneNumber.replace(/[^\d+]/g, '');
    if (phoneNumber.startsWith('+')) { cleaned = '+' + cleaned.substring(1); }
    return cleaned;
  }
  private isValidPhoneNumber(phoneNumber: string): boolean {
    const phoneRegex = /^(\+\d{1,3}\d{4,14}|\d{4,15})$/;
    return phoneRegex.test(phoneNumber);
  }
  \<close>
  The first alternative of the regular expression is a plus sign followed by 5 to 17
  digits (\<open>\d{1,3}\d{4,14}\<close>), the second is 4 to 15 digits.
\<close>

definition cleanPhoneNumber :: "jsstring \<Rightarrow> jsstring" where
  "cleanPhoneNumber phoneNumber =
     (let cleaned = filter (\<lambda>c. isDigit c \<or> c = 0x2B) phoneNumber
      in if startsWith phoneNumber (lit ''+'')
         then lit ''+'' @ substring cleaned 1 (int (length cleaned))
         else cleaned)"

definition isValidPhoneNumber :: "jsstring \<Rightarrow> bool" where
  "isValidPhoneNumber phoneNumber =
     ((case phoneNumber of
         [] \<Rightarrow> False
       | c # ds \<Rightarrow> c = 0x2B \<and> list_all isDigit ds \<and> 5 \<le> length ds \<and> length ds \<le> 17)
      \<or> (list_all isDigit phoneNumber \<and> 4 \<le> length phoneNumber \<and> length phoneNumber \<le> 15))"

text \<open>
  The native module is the transport. A call either resolves with an object (of which the
  code reads the \<open>messageId\<close> property, possibly absent) or rejects with a value: an object
  with a \<open>message\<close> property (the React Native bridge rejects with an \<open>Error\<close>; an absent
  message is the empty string here) or a string. What the transport answers may depend on
  the calls made before, so it is a function of the call log as well. The log of the calls
  is the observable effect of a send; the console output is left out.
\<close>

datatype js_thrown = ThrownObject jsstring | ThrownString jsstring

datatype native_outcome = Resolve "jsstring option" | Reject js_thrown

type_synonym native_call = "jsstring \<times> jsstring"

type_synonym native_module = "native_call list \<Rightarrow> jsstring \<Rightarrow> jsstring \<Rightarrow> native_outcome"

record SMSResult =
  r_success :: bool
  r_messageId :: "jsstring option"
  r_error :: "jsstring option"

definition failure :: "jsstring \<Rightarrow> SMSResult" where
  "failure reason = \<lparr>r_success = False, r_messageId = None, r_error = Some reason\<rparr>"

text \<open>The catch block of \<open>sendSMS\<close>:
  \<^verbatim>\<open>
      let errorMessage = 'Unknown error occurred';
      if (error.message) { errorMessage = error.message; }
      else if (typeof error === 'string') { errorMessage = error; }
  \<close>\<close>

definition errorMessage :: "js_thrown \<Rightarrow> jsstring" where
  "errorMessage e =
     (case e of
        ThrownObject m \<Rightarrow> if m \<noteq> [] then m else lit ''Unknown error occurred''
      | ThrownString s \<Rightarrow> s)"

text \<open>
  \<^verbatim>\<open>
  async sendSMS(phoneNumber: string, message: string): Promise<SMSResult> {
    if (!this.nativeModule) {
      return { success: false, error: 'SMS functionality not available on this platform' };
    }
    try {
      const cleanNumber = this.cleanPhoneNumber(phoneNumber);
      if (!this.isValidPhoneNumber(cleanNumber)) {
        return { success: false, error: 'Invalid phone number format' };
      }
      if (!message || message.trim().length === 0) {
        return { success: false, error: 'Message cannot be empty' };
      }
      const result = await this.nativeModule.sendSMS(cleanNumber, message.trim());
      return { success: true, messageId: result.messageId || `sms_${Date.now()}` };
    } catch (error: any) { ... return { success: false, error: errorMessage }; }
  }
  \<close>
  \<open>now\<close> is what \<open>Date.now()\<close> returns; \<open>calls\<close> is the log of transport calls so far.
\<close>

definition sendSMS ::
  "native_module option \<Rightarrow> nat \<Rightarrow> native_call list \<Rightarrow> jsstring \<Rightarrow> jsstring
     \<Rightarrow> SMSResult \<times> native_call list" where
  "sendSMS nativeModule now calls phoneNumber message =
     (case nativeModule of
        None \<Rightarrow> (failure (lit ''SMS functionality not available on this platform''), calls)
      | Some native \<Rightarrow>
          (let cleanNumber = cleanPhoneNumber phoneNumber in
           if \<not> isValidPhoneNumber cleanNumber
           then (failure (lit ''Invalid phone number format''), calls)
           else if message = [] \<or> length (trim message) = 0
           then (failure (lit ''Message cannot be empty''), calls)
           else
             (case native calls cleanNumber (trim message) of
                Resolve mid \<Rightarrow>
                  (\<lparr>r_success = True,
                    r_messageId =
                      Some (case mid of
                              Some m \<Rightarrow> if m \<noteq> [] then m else lit ''sms_'' @ decimal now
                            | None \<Rightarrow> lit ''sms_'' @ decimal now),
                    r_error = None\<rparr>,
                   calls @ [(cleanNumber, trim message)])
              | Reject e \<Rightarrow>
                  (failure (errorMessage e), calls @ [(cleanNumber, trim message)]))))"

section \<open>SMSService.sendLongSMS\<close>





section \<open>SmsManagerModule.sendSMS (Android bridge)\<close>






section \<open>SMSBridgeApp: the message queue of the bridge application\<close>

datatype msg_status = Pending | Sent | Failed

text \<open>The second parameter of \<open>updateMessageStatus\<close> has the type \<open>'sent' | 'failed'\<close>.\<close>

datatype terminal_status = ReportSent | ReportFailed

fun status_of :: "terminal_status \<Rightarrow> msg_status" where
  "status_of ReportSent = Sent"
| "status_of ReportFailed = Failed"

record SMSMessage =
  m_id :: jsstring
  m_to :: jsstring
  m_message :: jsstring
  m_campaignId :: jsstring
  m_status :: msg_status
  m_timestamp :: nat

record app_state =
  app_messageQueue :: "SMSMessage list"
  app_logs :: "jsstring list"

text \<open>
  \<^verbatim>\<open>
  const updateMessageStatus = (messageId: string, status: 'sent' | 'failed') => {
    setMessageQueue(prev =>
      prev.map(msg => msg.id === messageId ? { ...msg, status } : msg));
  };
  const addLog = (message: string) => {
    const timestamp = new Date().toLocaleTimeString();
    setLogs(prev => [`[${timestamp}] ${message}`, ...prev.slice(0, 49)]);
  };
  \<close>
\<close>

definition updateMessageStatus :: "jsstring \<Rightarrow> terminal_status \<Rightarrow> app_state \<Rightarrow> app_state" where
  "updateMessageStatus messageId status st =
     st\<lparr>app_messageQueue :=
          map (\<lambda>msg. if m_id msg = messageId then msg\<lparr>m_status := status_of status\<rparr> else msg)
            (app_messageQueue st)\<rparr>"









section \<open>WebUSBSMS: the USB modem adapter\<close>

text \<open>
  A thrown \<open>Error\<close> object has a \<open>name\<close> and a \<open>message\<close>; \<open>new Error(m)\<close> has the name
  \<open>Error\<close>. \<open>error_toString\<close> is \<open>Error.prototype.toString\<close>, which a template literal
  \<open>${error}\<close> applies.
\<close>

record js_error =
  err_name :: jsstring
  err_message :: jsstring

definition new_Error :: "jsstring \<Rightarrow> js_error" where
  "new_Error msg = \<lparr>err_name = lit ''Error'', err_message = msg\<rparr>"

definition error_toString :: "js_error \<Rightarrow> jsstring" where
  "error_toString e =
     (if err_name e = [] then err_message e
      else if err_message e = [] then err_name e
      else err_name e @ lit '': '' @ err_message e)"

datatype device_status = Online | Offline | Busy | Error

text \<open>
  The fields of the adapter that \<open>sendSMS\<close> reads or writes. \<open>device\<close> is the WebUSB
  device handle (\<open>null\<close> is \<open>None\<close>) with a state of type \<open>'d\<close>. \<open>messageQueue\<close> is a
  JavaScript number holding an integer count; it starts at 0 and the adapter changes it
  by one at a time, so it stays in the range where \<open>++\<close> and \<open>--\<close> are exact.
\<close>

record 'd WebUSBSMS =
  dev_id :: jsstring
  status :: device_status
  messageQueue :: int
  lastSeen :: nat
  device :: "'d option"

text \<open>
  One exchange with the modem (\<open>transferOut\<close> of the command, then \<open>transferIn\<close>): the
  device answers with the decoded response text (\<open>Inr\<close>, empty when the transfer carries no
  data) or something thrown inside the \<open>try\<close> (\<open>Inl\<close>, the text of the raw error as
  \<open>${error}\<close> renders it). The exchange awaits, and other code of the page runs meanwhile:
  the second component is the device handle when the exchange is over, \<open>None\<close> when a call
  of \<open>disconnect()\<close> has completed in between.
  \<^verbatim>\<open>
  async disconnect(): Promise<void> {
    try {
      if (this.device) {
        await this.device.releaseInterface(0);
        await this.device.close();
        this.device = null;
      }
      this.status = 'offline';
    } catch (error) { console.error('USB device disconnect error:', error); }
  }
  \<close>
\<close>

type_synonym 'd usb = "'d \<Rightarrow> jsstring \<Rightarrow> (jsstring + jsstring) \<times> 'd option"

definition disconnect_completes :: "'d WebUSBSMS \<Rightarrow> 'd WebUSBSMS" where
  "disconnect_completes s = s\<lparr>device := None, status := Offline\<rparr>"

text \<open>
  \<^verbatim>\<open>
  private async sendATCommand(command: string): Promise<string> {
    if (!this.device) { throw new Error('No USB device connected'); }
    try {
      const fullCommand = command + '\r\n';
      ...
      await this.device.transferOut(1, data);
      const response = await this.device.transferIn(1, 256);
      if (response.data) { ... return decoder.decode(response.data); }
      return '';
    } catch (error) { throw new Error(`AT command failed: ${error}`); }
  }
  \<close>
\<close>

definition sendATCommand ::
  "'d usb \<Rightarrow> 'd WebUSBSMS \<Rightarrow> jsstring \<Rightarrow> (js_error + jsstring) \<times> 'd WebUSBSMS" where
  "sendATCommand usb s command =
     (case device s of
        None \<Rightarrow> (Inl (new_Error (lit ''No USB device connected'')), s)
      | Some d \<Rightarrow>
          (case usb d (command @ [0x0D, 0x0A]) of
             (outcome, handle) \<Rightarrow>
               (let s' = (case handle of
                            Some d' \<Rightarrow> s\<lparr>device := Some d'\<rparr>
                          | None \<Rightarrow> disconnect_completes s)
                in case outcome of
                     Inl raw \<Rightarrow> (Inl (new_Error (lit ''AT command failed: '' @ raw)), s')
                   | Inr response \<Rightarrow> (Inr response, s'))))"

text \<open>
  A sequence of awaited commands inside one \<open>try\<close>: the first failure ends it. After a
  \<open>disconnect()\<close> the next command finds no device and throws before its own \<open>try\<close>.
\<close>

fun sendATCommands ::
  "'d usb \<Rightarrow> 'd WebUSBSMS \<Rightarrow> jsstring list \<Rightarrow> (js_error + unit) \<times> 'd WebUSBSMS" where
  "sendATCommands usb s [] = (Inr (), s)"
| "sendATCommands usb s (command # rest) =
     (case sendATCommand usb s command of
        (Inl e, s') \<Rightarrow> (Inl e, s')
      | (Inr response, s') \<Rightarrow> sendATCommands usb s' rest)"

text \<open>
  \<^verbatim>\<open>
  async sendSMS(options: { to: string; message: string; campaignId?: string; }):
      Promise<{ messageId: string; status: 'sent' | 'pending' | 'failed'; }> {
    if (!this.device) { throw new Error('No USB device connected'); }
    try {
      this.status = 'busy';
      this.messageQueue++;
      await this.sendATCommand('AT');
      await this.sendATCommand('AT+CMGF=1');
      await this.sendATCommand(`AT+CMGS="${options.to}"`);
      await this.sendATCommand(options.message + '\x1A');
      this.status = 'online';
      this.messageQueue--;
      this.lastSeen = new Date();
      return { messageId: `usb_${this.id}_${Date.now()}`, status: 'sent' };
    } catch (error) {
      this.status = 'error';
      this.messageQueue--;
      throw new Error(`USB SMS sending failed: ${error}`);
    }
  }
  \<close>
  The call runs without interruption up to its first \<open>await\<close> (\<open>sendSMS_enter\<close>) and,
  once the commands are through, from the last \<open>await\<close> to its end
  (\<open>sendSMS_leave_ok\<close>, \<open>sendSMS_leave_error\<close>).
\<close>

definition sendSMS_enter :: "'d WebUSBSMS \<Rightarrow> js_error + 'd WebUSBSMS" where
  "sendSMS_enter s =
     (if device s = None then Inl (new_Error (lit ''No USB device connected''))
      else Inr (s\<lparr>status := Busy, messageQueue := messageQueue s + 1\<rparr>))"

definition sendSMS_leave_ok :: "nat \<Rightarrow> 'd WebUSBSMS \<Rightarrow> 'd WebUSBSMS" where
  "sendSMS_leave_ok now s =
     s\<lparr>status := Online, messageQueue := messageQueue s - 1, lastSeen := now\<rparr>"

definition sendSMS_leave_error :: "'d WebUSBSMS \<Rightarrow> 'd WebUSBSMS" where
  "sendSMS_leave_error s = s\<lparr>status := Error, messageQueue := messageQueue s - 1\<rparr>"

record usb_send_result =
  usr_messageId :: jsstring
  usr_status :: jsstring

definition WebUSBSMS_sendSMS ::
  "'d usb \<Rightarrow> nat \<Rightarrow> 'd WebUSBSMS \<Rightarrow> jsstring \<Rightarrow> jsstring
     \<Rightarrow> (js_error + usb_send_result) \<times> 'd WebUSBSMS" where
  "WebUSBSMS_sendSMS usb now s to message =
     (case sendSMS_enter s of
        Inl e \<Rightarrow> (Inl e, s)
      | Inr s1 \<Rightarrow>
          (case sendATCommands usb s1
                  [lit ''AT'', lit ''AT+CMGF=1'',
                   lit ''AT+CMGS=\"'' @ to @ lit ''\"'', message @ [0x1A]] of
             (Inr u, s2) \<Rightarrow>
               (Inr \<lparr>usr_messageId = lit ''usb_'' @ dev_id s2 @ lit ''_'' @ decimal now,
                     usr_status = lit ''sent''\<rparr>,
                sendSMS_leave_ok now s2)
           | (Inl e, s2) \<Rightarrow>
               (Inl (new_Error (lit ''USB SMS sending failed: '' @ error_toString e)),
                sendSMS_leave_error s2)))"

text \<open>
  Calls of \<open>sendSMS\<close> that the caller does not await one by one overlap: each has entered
  and not yet left. A history of the adapter is a list of these moments.
\<close>

datatype send_event = Enter | LeaveOk nat | LeaveError

fun send_step :: "'d WebUSBSMS \<Rightarrow> send_event \<Rightarrow> 'd WebUSBSMS" where
  "send_step s Enter = (case sendSMS_enter s of Inl e \<Rightarrow> s | Inr s' \<Rightarrow> s')"
| "send_step s (LeaveOk now) = sendSMS_leave_ok now s"
| "send_step s LeaveError = sendSMS_leave_error s"

definition send_history :: "'d WebUSBSMS \<Rightarrow> send_event list \<Rightarrow> 'd WebUSBSMS" where
  "send_history s events = foldl send_step s events"

fun isEnter :: "send_event \<Rightarrow> bool" where
  "isEnter Enter = True"
| "isEnter (LeaveOk now) = False"
| "isEnter LeaveError = False"


section \<open>NetworkService.send\<close>

datatype ready_state = CONNECTING | OPEN | CLOSING | CLOSED

text \<open>A WebSocket: its \<open>readyState\<close> and the frames it has transmitted so far.\<close>

record websocket =
  readyState :: ready_state
  transmitted :: "jsstring list"

record DeviceInfo =
  deviceId :: jsstring
  deviceName :: jsstring

record 'h NetworkService =
  socket :: "websocket option"
  serverUrl :: jsstring
  deviceInfo :: "DeviceInfo option"
  messageHandlers :: "jsstring \<Rightarrow> 'h option"
  isConnected :: bool
  reconnectTimeout :: "nat option"
  heartbeatInterval :: "nat option"

datatype console_entry = ConsoleWarn jsstring | ConsoleError jsstring jsstring

text \<open>
  What \<open>send\<close> relies on: \<open>JSON.stringify\<close> of the envelope (type, data, timestamp,
  device id) gives the text of the frame or throws (\<open>Inl\<close>: a circular \<open>data\<close>, say), and
  the socket's own \<open>send\<close> may throw (\<open>Some\<close>).
\<close>

record 'a net_env =
  stringify :: "jsstring \<Rightarrow> 'a \<Rightarrow> jsstring \<Rightarrow> jsstring option \<Rightarrow> jsstring + jsstring"
  socket_send_throws :: "websocket \<Rightarrow> jsstring \<Rightarrow> jsstring option"

text \<open>
  \<^verbatim>\<open>
  send(type: string, data: any): void {
    if (!this.socket || this.socket.readyState !== WebSocket.OPEN) {
      console.warn('WebSocket not connected, cannot send message');
      return;
    }
    try {
      const message = { type, data, timestamp: new Date().toISOString(),
                        deviceId: this.deviceInfo?.deviceId };
      this.socket.send(JSON.stringify(message));
    } catch (error) {
      console.error('Failed to send WebSocket message:', error);
    }
  }
  \<close>
  The result is the error thrown to the caller, if any, the service after the call, and
  what the call wrote to the console.
\<close>

definition NetworkService_send ::
  "'a net_env \<Rightarrow> jsstring \<Rightarrow> 'h NetworkService \<Rightarrow> jsstring \<Rightarrow> 'a
     \<Rightarrow> jsstring option \<times> 'h NetworkService \<times> console_entry list" where
  "NetworkService_send env timestamp s type data =
     (case socket s of
        None \<Rightarrow> (None, s, [ConsoleWarn (lit ''WebSocket not connected, cannot send message'')])
      | Some ws \<Rightarrow>
          if readyState ws \<noteq> OPEN
          then (None, s, [ConsoleWarn (lit ''WebSocket not connected, cannot send message'')])
          else
            (case stringify env type data timestamp (map_option deviceId (deviceInfo s)) of
               Inl err \<Rightarrow>
                 (None, s, [ConsoleError (lit ''Failed to send WebSocket message:'') err])
             | Inr frame \<Rightarrow>
                 (case socket_send_throws env ws frame of
                    Some err \<Rightarrow>
                      (None, s, [ConsoleError (lit ''Failed to send WebSocket message:'') err])
                  | None \<Rightarrow>
                      (None,
                       s\<lparr>socket := Some (ws\<lparr>transmitted := transmitted ws @ [frame]\<rparr>)\<rparr>,
                       []))))"

definition disconnected :: "'h NetworkService \<Rightarrow> bool" where
  "disconnected s = (case socket s of None \<Rightarrow> True | Some ws \<Rightarrow> readyState ws \<noteq> OPEN)"

section \<open>CampaignBuilder.generatePreview\<close>























section \<open>Notions used to state the properties\<close>




text \<open>
  The concurrency limit in the words of the specification ("in-flight(d) \<le>
  concurrency_limit(d)"), for comparison with the adapter, which has no such field: the
  in-flight count of the adapter is its \<open>messageQueue\<close>.
\<close>

definition spec_within_limit :: "int \<Rightarrow> 'd WebUSBSMS \<Rightarrow> bool" where
  "spec_within_limit concurrency_limit s = (messageQueue s \<le> concurrency_limit)"

section \<open>Concrete inputs\<close>

definition long_message :: jsstring where
  "long_message = replicate 161 0x61"


definition always_resolves :: native_module where
  "always_resolves calls number body = Resolve None"




definition example_message :: SMSMessage where
  "example_message =
     \<lparr>m_id = lit ''m1'', m_to = lit ''+15551234567'', m_message = lit ''hello'',
      m_campaignId = lit ''c1'', m_status = Pending, m_timestamp = 0\<rparr>"

definition example_app :: app_state where
  "example_app = \<lparr>app_messageQueue = [example_message], app_logs = []\<rparr>"



definition example_modem :: "unit WebUSBSMS" where
  "example_modem =
     \<lparr>dev_id = lit ''usb_1'', status = Online, messageQueue = 0, lastSeen = 0,
      device = Some ()\<rparr>"



definition example_net_env :: "unit net_env" where
  "example_net_env =
     \<lparr>stringify = (\<lambda>type data timestamp device. Inr type),
      socket_send_throws = (\<lambda>ws frame. None)\<rparr>"

definition closed_service :: "unit NetworkService" where
  "closed_service =
     \<lparr>socket = Some \<lparr>readyState = CLOSED, transmitted = []\<rparr>,
      serverUrl = lit ''http://192.168.1.100:4000'',
      deviceInfo = None,
      messageHandlers = (\<lambda>type. None),
      isConnected = False,
      reconnectTimeout = None,
      heartbeatInterval = None\<rparr>"





section \<open>Properties of splitLongMessage\<close>

lemma substring_step:
  assumes "0 \<le> i" "0 < m" "i < int (length s)"
  shows "substring s i (i + m) = take (nat m) (drop (nat i) s)"
  using assms by (auto simp: substring_def Let_def min_def max_def)

text \<open>
  The loop, started at a position \<open>i \<ge> 0\<close> with a positive step, returns; it appends to
  the parts collected so far a list of pieces of the rest of the message, each of them no
  longer than the step.
\<close>

lemma split_loop_correct:
  assumes "0 < m"
  shows "0 \<le> i \<Longrightarrow>
         \<exists>ps. split_loop s m i acc = Some (acc @ ps) \<and> concat ps = drop (nat i) s
              \<and> (\<forall>p\<in>set ps. int (length p) \<le> m)"
proof (induction "nat (int (length s) - i)" arbitrary: i acc rule: less_induct)
  case less
  show ?case
  proof (cases "i < int (length s)")
    case False
    then show ?thesis by (subst split_loop.simps) simp
  next
    case True
    let ?p = "substring s i (i + m)"
    have p: "?p = take (nat m) (drop (nat i) s)"
      using substring_step[OF less.prems assms True] .
    have "nat (int (length s) - (i + m)) < nat (int (length s) - i)"
      using True assms by linarith
    moreover have "0 \<le> i + m" using less.prems assms by simp
    ultimately obtain ps where ps:
      "split_loop s m (i + m) (acc @ [?p]) = Some ((acc @ [?p]) @ ps)"
      "concat ps = drop (nat (i + m)) s" "\<forall>p\<in>set ps. int (length p) \<le> m"
      using less.hyps by blast
    have "split_loop s m i acc = Some (acc @ (?p # ps))"
      using True ps(1) by (subst split_loop.simps) simp
    moreover have "concat (?p # ps) = drop (nat i) s"
    proof -
      have "nat (i + m) = nat m + nat i" using less.prems assms by linarith
      then have "drop (nat (i + m)) s = drop (nat m) (drop (nat i) s)" by simp
      then have "concat ps = drop (nat m) (drop (nat i) s)" using ps(2) by simp
      then show ?thesis unfolding p by (simp only: concat.simps append_take_drop_id)
    qed
    moreover have "\<forall>q\<in>set (?p # ps). int (length q) \<le> m"
      using ps(3) p assms by auto
    ultimately show ?thesis by blast
  qed
qed

lemma splitLongMessage_correct:
  assumes "0 < maxLength"
  shows "\<exists>parts. splitLongMessage message maxLength = Some parts
           \<and> concat parts = message
           \<and> (\<forall>p\<in>set parts. int (length p) \<le> maxLength)
           \<and> (int (length message) \<le> maxLength \<longrightarrow> parts = [message])"
proof (cases "int (length message) \<le> maxLength")
  case True
  then show ?thesis by (simp add: splitLongMessage_def)
next
  case False
  obtain ps where "split_loop message maxLength 0 [] = Some ([] @ ps)"
    "concat ps = drop (nat 0) message" "\<forall>p\<in>set ps. int (length p) \<le> maxLength"
    using split_loop_correct[OF assms, of 0 message "[]"] by blast
  then show ?thesis using False by (simp add: splitLongMessage_def)
qed

text \<open>
  C5. Splitting is an order-preserving partition: with the default segment size of 160,
  \<open>splitLongMessage\<close> returns, for every message, a list of parts of at most 160 code
  units each whose concatenation in order is the message, and for a message of at most
  160 code units the list is the message alone.
\<close>

theorem splitLongMessage_partition:
  "\<exists>parts. splitLongMessage_default message = Some parts
      \<and> concat parts = message
      \<and> (\<forall>p\<in>set parts. length p \<le> 160)
      \<and> (length message \<le> 160 \<longrightarrow> parts = [message])"
  using splitLongMessage_correct[of 160 message]
  by (simp add: splitLongMessage_default_def DEFAULT_MAX_LENGTH_def)

theorem splitLongMessage_partition_witness:
  "length (lit ''hello'') \<le> 160
   \<and> splitLongMessage_default (lit ''hello'') = Some [lit ''hello'']
   \<and> lit ''hello'' \<in> set [lit ''hello'']
   \<and> splitLongMessage_default long_message = Some [replicate 160 0x61, [0x61]]"
proof -
  have "splitLongMessage_default long_message = Some [replicate 160 0x61, [0x61]]"
    by code_simp
  then show ?thesis
    using splitLongMessage_partition[of "lit ''hello''"] by (auto simp: lit_def)
qed

section \<open>Properties of SMSService.sendSMS\<close>

text \<open>
  C7. A recipient number that fails the format validation of \<open>sendSMS\<close> (the cleaned
  number does not match the pattern), and likewise an empty (or blank) message body, makes
  \<open>sendSMS\<close> return a failure result that carries an error reason, and the log of
  transport calls is what it was: the native send is not invoked.
\<close>

theorem sendSMS_rejects_without_transport:
  assumes "\<not> isValidPhoneNumber (cleanPhoneNumber phoneNumber)
             \<or> message = [] \<or> trim message = []"
  shows "\<exists>reason. reason \<noteq> []
           \<and> sendSMS nativeModule now calls phoneNumber message =
               (\<lparr>r_success = False, r_messageId = None, r_error = Some reason\<rparr>, calls)"
proof (cases nativeModule)
  case None
  then show ?thesis by (simp add: sendSMS_def failure_def lit_def)
next
  case (Some native)
  then show ?thesis using assms
    by (auto simp: sendSMS_def failure_def lit_def Let_def)
qed

theorem sendSMS_rejects_without_transport_witness:
  "\<not> isValidPhoneNumber (cleanPhoneNumber (lit ''12a''))
   \<and> (\<exists>reason. reason \<noteq> []
        \<and> sendSMS (Some always_resolves) 0 [] (lit ''12a'') (lit ''hi'') =
            (\<lparr>r_success = False, r_messageId = None, r_error = Some reason\<rparr>, []))"
proof -
  have h: "\<not> isValidPhoneNumber (cleanPhoneNumber (lit ''12a''))"
    by (simp add: cleanPhoneNumber_def isValidPhoneNumber_def lit_def isDigit_def
        startsWith_def)
  then have "\<not> isValidPhoneNumber (cleanPhoneNumber (lit ''12a''))
             \<or> lit ''hi'' = [] \<or> trim (lit ''hi'') = []"
    by simp
  from sendSMS_rejects_without_transport[OF this] h show ?thesis by simp
qed


section \<open>Properties of SMSService.sendLongSMS and of the Android bridge\<close>













section \<open>Properties of the bridge application's queue\<close>

lemma updateMessageStatus_sets_status:
  assumes "m \<in> set (app_messageQueue (updateMessageStatus i r st))" "m_id m = i"
  shows "m_status m = status_of r"
proof -
  obtain msg where m: "m = (if m_id msg = i then msg\<lparr>m_status := status_of r\<rparr> else msg)"
  proof -
    have "m \<in> (\<lambda>msg. if m_id msg = i then msg\<lparr>m_status := status_of r\<rparr> else msg)
                 ` set (app_messageQueue st)"
      using assms(1) by (simp add: updateMessageStatus_def)
    then show ?thesis using that by blast
  qed
  show ?thesis
  proof (cases "m_id msg = i")
    case True
    then show ?thesis using m by simp
  next
    case False
    then have "m = msg" using m by simp
    then show ?thesis using False assms(2) by simp
  qed
qed

lemma updateMessageStatus_length:
  "length (app_messageQueue (updateMessageStatus i r st)) = length (app_messageQueue st)"
  by (simp add: updateMessageStatus_def)







text \<open>
  C3, as the code has it. \<open>updateMessageStatus\<close> overwrites. A report sets the status of
  every queue entry with the given id to the reported outcome and leaves every other
  entry, the order of the queue and the logs as they were. Hence a second report for the
  same message id with the same outcome leaves the state as the first report made it, and
  a later report with another outcome replaces the earlier one: after two reports every
  entry with the id has the outcome of the second (the last report wins).
\<close>

theorem updateMessageStatus_last_report_wins:
  "length (app_messageQueue (updateMessageStatus messageId r st)) = length (app_messageQueue st)
   \<and> app_logs (updateMessageStatus messageId r st) = app_logs st
   \<and> (\<forall>k < length (app_messageQueue st).
         app_messageQueue (updateMessageStatus messageId r st) ! k =
           (if m_id (app_messageQueue st ! k) = messageId
            then (app_messageQueue st ! k)\<lparr>m_status := status_of r\<rparr>
            else app_messageQueue st ! k))
   \<and> updateMessageStatus messageId r (updateMessageStatus messageId r st) =
       updateMessageStatus messageId r st
   \<and> updateMessageStatus messageId r2 (updateMessageStatus messageId r1 st) =
       updateMessageStatus messageId r2 st
   \<and> (\<forall>m \<in> set (app_messageQueue
                    (updateMessageStatus messageId r2 (updateMessageStatus messageId r1 st))).
         m_id m = messageId \<longrightarrow> m_status m = status_of r2)"
proof -
  have two: "\<And>a b. updateMessageStatus messageId b (updateMessageStatus messageId a st) =
     updateMessageStatus messageId b st"
    by (simp add: updateMessageStatus_def comp_def cong: map_cong)
  have "\<forall>k < length (app_messageQueue st).
         app_messageQueue (updateMessageStatus messageId r st) ! k =
           (if m_id (app_messageQueue st ! k) = messageId
            then (app_messageQueue st ! k)\<lparr>m_status := status_of r\<rparr>
            else app_messageQueue st ! k)"
    by (simp add: updateMessageStatus_def)
  moreover have "\<forall>m \<in> set (app_messageQueue
                    (updateMessageStatus messageId r2 (updateMessageStatus messageId r1 st))).
         m_id m = messageId \<longrightarrow> m_status m = status_of r2"
    unfolding two using updateMessageStatus_sets_status[of _ messageId r2 st] by blast
  moreover have "app_logs (updateMessageStatus messageId r st) = app_logs st"
    by (simp add: updateMessageStatus_def)
  ultimately show ?thesis using two updateMessageStatus_length by blast
qed

theorem updateMessageStatus_last_report_wins_witness:
  "0 < length (app_messageQueue example_app)
   \<and> m_id (app_messageQueue example_app ! 0) = lit ''m1''
   \<and> app_messageQueue (updateMessageStatus (lit ''m1'') ReportSent example_app) ! 0 =
       example_message\<lparr>m_status := Sent\<rparr>
   \<and> example_message\<lparr>m_status := Failed\<rparr>
       \<in> set (app_messageQueue
                (updateMessageStatus (lit ''m1'') ReportFailed
                   (updateMessageStatus (lit ''m1'') ReportSent example_app)))
   \<and> m_status (example_message\<lparr>m_status := Failed\<rparr>) = status_of ReportFailed"
proof -
  have h1: "0 < length (app_messageQueue example_app)" by (simp add: example_app_def)
  have h2: "m_id (app_messageQueue example_app ! 0) = lit ''m1''"
    by (simp add: example_app_def example_message_def)
  note t = updateMessageStatus_last_report_wins[of "lit ''m1''" ReportSent example_app
      ReportFailed ReportSent]
  have "app_messageQueue (updateMessageStatus (lit ''m1'') ReportSent example_app) ! 0 =
          (if m_id (app_messageQueue example_app ! 0) = lit ''m1''
           then (app_messageQueue example_app ! 0)\<lparr>m_status := status_of ReportSent\<rparr>
           else app_messageQueue example_app ! 0)"
    using t h1 by blast
  then have c3: "app_messageQueue (updateMessageStatus (lit ''m1'') ReportSent example_app) ! 0 =
       example_message\<lparr>m_status := Sent\<rparr>"
    using h2 by (simp add: example_app_def)
  have c4: "example_message\<lparr>m_status := Failed\<rparr>
       \<in> set (app_messageQueue
                (updateMessageStatus (lit ''m1'') ReportFailed
                   (updateMessageStatus (lit ''m1'') ReportSent example_app)))"
    by (simp add: updateMessageStatus_def example_app_def example_message_def)
  show ?thesis using h1 h2 c3 c4 by simp
qed

text \<open>
  C3 as stated fails: the first terminal report does not win. After the report \<open>sent\<close>
  for message \<open>m1\<close>, a report \<open>failed\<close> for the same id changes the state.
\<close>

theorem first_report_wins_counterexample:
  "updateMessageStatus (lit ''m1'') ReportFailed
     (updateMessageStatus (lit ''m1'') ReportSent example_app)
   \<noteq> updateMessageStatus (lit ''m1'') ReportSent example_app
   \<and> map m_status (app_messageQueue
        (updateMessageStatus (lit ''m1'') ReportFailed
           (updateMessageStatus (lit ''m1'') ReportSent example_app))) = [Failed]"
  by (simp add: updateMessageStatus_def example_app_def example_message_def)


section \<open>Properties of the USB modem adapter\<close>

lemma sendATCommand_messageQueue:
  "messageQueue (snd (sendATCommand usb s command)) = messageQueue s"
  by (auto simp: sendATCommand_def disconnect_completes_def Let_def
      split: option.splits prod.splits sum.splits)

lemma sendATCommands_messageQueue:
  "messageQueue (snd (sendATCommands usb s commands)) = messageQueue s"
proof (induction commands arbitrary: s)
  case Nil
  show ?case by simp
next
  case (Cons command rest)
  obtain r s' where step: "sendATCommand usb s command = (r, s')"
    by (cases "sendATCommand usb s command")
  have q: "messageQueue s' = messageQueue s"
    using sendATCommand_messageQueue[of usb s command] step by simp
  show ?case
  proof (cases r)
    case (Inl e)
    then show ?thesis using step q by simp
  next
    case (Inr response)
    then show ?thesis using step q Cons.IH[of s'] by simp
  qed
qed

text \<open>
  C9. Every call of \<open>WebUSBSMS.sendSMS\<close> that completes, by returning a result or by
  throwing, leaves \<open>messageQueue\<close> at the value it had before the call.
\<close>

theorem sendSMS_restores_messageQueue:
  "messageQueue (snd (WebUSBSMS_sendSMS usb now s to message)) = messageQueue s"
proof (cases "device s")
  case None
  then show ?thesis by (simp add: WebUSBSMS_sendSMS_def sendSMS_enter_def)
next
  case (Some d)
  let ?s1 = "s\<lparr>status := Busy, messageQueue := messageQueue s + 1\<rparr>"
  let ?cs = "[lit ''AT'', lit ''AT+CMGF=1'', lit ''AT+CMGS=\"'' @ to @ lit ''\"'', message @ [0x1A]]"
  obtain r s2 where run: "sendATCommands usb ?s1 ?cs = (r, s2)"
    by (cases "sendATCommands usb ?s1 ?cs")
  have q: "messageQueue s2 = messageQueue s + 1"
    using sendATCommands_messageQueue[of usb ?s1 ?cs] run by simp
  show ?thesis
    using Some run q
    by (cases r) (simp_all add: WebUSBSMS_sendSMS_def sendSMS_enter_def
        sendSMS_leave_ok_def sendSMS_leave_error_def)
qed












lemma send_step_device: "device s \<noteq> None \<Longrightarrow> device (send_step s ev) \<noteq> None"
  by (cases ev) (auto simp: sendSMS_enter_def sendSMS_leave_ok_def sendSMS_leave_error_def)

lemma send_step_messageQueue:
  "device s \<noteq> None \<Longrightarrow>
   messageQueue (send_step s ev) = messageQueue s + (if isEnter ev then 1 else - 1)"
  by (cases ev) (auto simp: sendSMS_enter_def sendSMS_leave_ok_def sendSMS_leave_error_def)

lemma send_history_messageQueue:
  "device s \<noteq> None \<Longrightarrow>
   messageQueue (send_history s events) =
     messageQueue s + int (length (filter isEnter events))
       - int (length (filter (\<lambda>ev. \<not> isEnter ev) events))"
  unfolding send_history_def
proof (induction events arbitrary: s)
  case Nil
  show ?case by simp
next
  case (Cons ev events)
  have d: "device (send_step s ev) \<noteq> None" using send_step_device[OF Cons.prems] .
  show ?case
    using Cons.IH[OF d] send_step_messageQueue[OF Cons.prems, of ev] by simp
qed

text \<open>
  C4, as the code has it. The adapter has no concurrency limit. With a device connected,
  \<open>messageQueue\<close> after any history is its initial value plus the number of sends that
  have entered minus the number that have left; \<open>n\<close> sends that have entered and not
  left raise it by \<open>n\<close>, for every \<open>n\<close>.
\<close>

theorem messageQueue_counts_sends_in_flight:
  assumes "device s \<noteq> None"
  shows "messageQueue (send_history s events) =
           messageQueue s + int (length (filter isEnter events))
             - int (length (filter (\<lambda>ev. \<not> isEnter ev) events))
         \<and> messageQueue (send_history s (replicate n Enter)) = messageQueue s + int n"
proof -
  have "filter isEnter (replicate n Enter) = replicate n Enter"
    by (induction n) simp_all
  moreover have "filter (\<lambda>ev. \<not> isEnter ev) (replicate n Enter) = []"
    by (induction n) simp_all
  ultimately show ?thesis
    using send_history_messageQueue[OF assms, of events]
      send_history_messageQueue[OF assms, of "replicate n Enter"] by simp
qed

theorem messageQueue_counts_sends_in_flight_witness:
  "device example_modem \<noteq> None
   \<and> messageQueue (send_history example_modem [Enter, Enter, LeaveOk 5]) = 1
   \<and> messageQueue (send_history example_modem (replicate 3 Enter)) = 3"
proof -
  have h: "device example_modem \<noteq> None" by (simp add: example_modem_def)
  show ?thesis
    using h messageQueue_counts_sends_in_flight[OF h, of "[Enter, Enter, LeaveOk 5]" 3]
    by (simp add: example_modem_def)
qed

text \<open>
  C4 as stated fails. Against a concurrency limit of 1, two calls of \<open>sendSMS\<close> that
  have both entered and not yet left put the in-flight count at 2.
\<close>

theorem in_flight_exceeds_limit_counterexample:
  "\<not> spec_within_limit 1 (send_history example_modem [Enter, Enter])"
  by (simp add: spec_within_limit_def send_history_def example_modem_def sendSMS_enter_def)

section \<open>Properties of NetworkService.send\<close>

text \<open>
  C10. \<open>send\<close> never throws. When the socket is absent or not \<open>OPEN\<close>, the call
  transmits nothing and leaves the service, its socket included, as it was; all it does
  is write a warning to the console.
\<close>

theorem send_while_disconnected:
  "fst (NetworkService_send env timestamp s type data) = None
   \<and> (disconnected s \<longrightarrow>
        NetworkService_send env timestamp s type data =
          (None, s, [ConsoleWarn (lit ''WebSocket not connected, cannot send message'')]))"
  by (auto simp: NetworkService_send_def disconnected_def split: option.splits sum.splits)

theorem send_while_disconnected_witness:
  "disconnected closed_service
   \<and> NetworkService_send example_net_env (lit ''2024-01-01T00:00:00.000Z'') closed_service
        (lit ''sms-sent'') () =
       (None, closed_service, [ConsoleWarn (lit ''WebSocket not connected, cannot send message'')])"
proof -
  have h: "disconnected closed_service"
    by (simp add: disconnected_def closed_service_def)
  show ?thesis
    using h send_while_disconnected[of example_net_env "lit ''2024-01-01T00:00:00.000Z''"
        closed_service "lit ''sms-sent''" "()"]
    by blast
qed




section \<open>Properties of generatePreview\<close>























end
